theory Spec2Isabelle
  imports Main "HOL-Library.AList"
begin

section \<open>Python values and exceptions\<close>

text \<open>
  The module is Python 2 (\<open>basestring\<close>, \<open>bytes("hello")\<close>). A setting's value is a
  byte string or \<open>None\<close>; keys and plugin names are byte strings. Every exception the
  module can raise is a value of \<open>error\<close>; a call returns \<open>Inl e\<close> when it raises \<open>e\<close>.
\<close>

datatype error = KeyError | NameError | TypeError | RuntimeError

datatype pyval = PyNone | PyBytes string

section \<open>Names the module binds\<close>

text \<open>
  Python looks a free name of a function body up in the module's globals and then in the
  builtins, when the name is evaluated; a name bound in neither raises \<open>NameError\<close>
  there. \<open>module_globals\<close> lists every name the file binds at module level (its imports,
  constants, functions and classes, in source order), \<open>builtins_used\<close> the builtins it
  refers to.
\<close>

definition module_globals :: "string list" where
  "module_globals =
    [''os'', ''re'', ''abc'', ''unittest'', ''contextlib'', ''idc'', ''idaapi'', ''QtCore'',
     ''IDASettingsInterface'', ''FILENAME_RE'', ''validate'', ''IDASettingsBase'',
     ''DictMixin'', ''IDA_SETTINGS_ORGANIZATION'', ''IDA_SETTINGS_APPLICATION'',
     ''get_qsettings'', ''SystemIDASettings'', ''UserIDASettings'',
     ''get_current_directory_config_path'', ''DirectoryIDASettings'', ''get_meta_netnode'',
     ''PLUGIN_NAMES_KEY'', ''get_netnode_plugin_names'', ''add_netnode_plugin_name'',
     ''IDBIDASettings'', ''IDASettings'', ''import_settings'', ''export_settings'',
     ''PLUGIN_1'', ''PLUGIN_2'', ''KEY_1'', ''KEY_2'', ''VALUE_1'', ''VALUE_2'',
     ''TestSync'', ''clearing'', ''TestSettingsMixin'', ''TestSystemSettings'',
     ''TestUserSettings'', ''TestDirectorySettings'', ''TestIdbSettings'',
     ''TestUserAndSystemSettings'', ''main'']"

definition builtins_used :: "string list" where
  "builtins_used =
    [''None'', ''True'', ''False'', ''NotImplemented'', ''object'', ''super'', ''property'',
     ''isinstance'', ''basestring'', ''bytes'', ''set'', ''list'', ''TypeError'',
     ''KeyError'', ''RuntimeError'', ''ImportError'', ''SystemExit'', ''__name__'']"

definition name_bound :: "string \<Rightarrow> bool" where
  "name_bound n = (n \<in> set module_globals \<or> n \<in> set builtins_used)"

section \<open>The namespace validator\<close>

text \<open>
  \<open>FILENAME_RE = re.compile("[A-Za-z0-9 \-\.]+$")\<close> and
  \<open>validate(s) = (FILENAME_RE.match(s) != None)\<close>.

  \<open>filename_char\<close> is the character class. \<open>match\<close> anchors the pattern at index 0; the
  greedy \<open>+\<close> takes one or more class characters and gives them back one at a time, so
  the candidate ends of the class run are \<open>n, n - 1, ..., 1\<close> for a longest run of
  \<open>n\<close> characters. Python's \<open>$\<close> (no MULTILINE flag) holds at the end of the string and
  also just before a newline that is the last character: \<open>at_dollar\<close>. The result is the
  end index of the match, \<open>None\<close> when there is no match.
\<close>

definition filename_char :: "char \<Rightarrow> bool" where
  "filename_char c =
    (let n = (of_char c :: nat) in
      (65 \<le> n \<and> n \<le> 90) \<or> (97 \<le> n \<and> n \<le> 122) \<or> (48 \<le> n \<and> n \<le> 57) \<or>
      c = CHR '' '' \<or> c = CHR ''-'' \<or> c = CHR ''.'')"

definition at_dollar :: "string \<Rightarrow> nat \<Rightarrow> bool" where
  "at_dollar s i = (i = length s \<or> (Suc i = length s \<and> s ! i = CHR 0x0A))"

definition FILENAME_RE_match :: "string \<Rightarrow> nat option" where
  "FILENAME_RE_match s =
     find (at_dollar s) (rev [1 ..< Suc (length (takeWhile filename_char s))])"

definition validate :: "string \<Rightarrow> bool" where
  "validate s = (FILENAME_RE_match s \<noteq> None)"

text \<open>
  \<open>IDASettingsBase.__init__\<close> and \<open>IDASettings.__init__\<close> run the same check and keep
  the name in \<open>_plugin_name\<close>, the only field of an instance: an instance is modelled
  by that name.
\<close>

definition IDASettingsBase_init :: "string \<Rightarrow> error + string" where
  "IDASettingsBase_init plugin_name =
     (if \<not> validate plugin_name then Inl RuntimeError else Inr plugin_name)"

definition IDASettings_init :: "string \<Rightarrow> error + string" where
  "IDASettings_init plugin_name =
     (if \<not> validate plugin_name then Inl RuntimeError else Inr plugin_name)"

section \<open>The two collaborators: QSettings and the IDB's netnodes\<close>

text \<open>
  Modelled from the spec: Qt's \<open>QSettings\<close> and IDA's \<open>idaapi.netnode\<close> are libraries
  the module calls, not code of the repository. The spec gives their interface
  (\<open>value(key)\<close> returning an optional value, \<open>setValue\<close>, \<open>remove\<close>, \<open>allKeys\<close>;
  \<open>hashval\<close>, \<open>hashset(key, bytes_or_null)\<close>, \<open>hashdel\<close>, \<open>hash1st\<close>/\<open>hashnxt\<close>
  enumerating in insertion order up to a sentinel). One detail is taken from the source
  instead: the comment in \<open>UserIDASettings.get_value\<close> and the docstring of
  \<open>test_system_fallback\<close> say that a \<open>QSettings\<close> of user scope falls back to the
  system scope when the key does not exist, and \<open>QSettings_value\<close> does so.

  A group of keys is an association list (\<open>AList.update\<close> overwrites in place and appends
  a new key at the end; \<open>AList.delete\<close> removes the key). The world holds the three
  \<open>QSettings\<close> locations, each a function from the group (the plugin name) to its keys,
  and the netnodes of the open IDB by name. The path of the open IDB is not changed by
  any function of the module, so \<open>directory_store\<close> is the one file
  \<open>get_current_directory_config_path()\<close> names.
\<close>

type_synonym keys = "(string \<times> pyval) list"

record world =
  system_store :: "string \<Rightarrow> keys"
  user_store :: "string \<Rightarrow> keys"
  directory_store :: "string \<Rightarrow> keys"
  netnodes :: "string \<Rightarrow> keys option"

type_synonym 'a outcome = "(error + 'a) \<times> world"

datatype qscope = SystemScope | UserScope | IniFile

text \<open>A \<open>QSettings\<close> handle after \<open>beginGroup(group)\<close>: its location and its group.\<close>

type_synonym qsettings = "qscope \<times> string"

definition group_keys :: "world \<Rightarrow> qsettings \<Rightarrow> keys" where
  "group_keys w s =
     (case s of (sc, g) \<Rightarrow>
        (case sc of SystemScope \<Rightarrow> system_store w g
                  | UserScope \<Rightarrow> user_store w g
                  | IniFile \<Rightarrow> directory_store w g))"

definition put_group_keys :: "qsettings \<Rightarrow> keys \<Rightarrow> world \<Rightarrow> world" where
  "put_group_keys s ks w =
     (case s of (sc, g) \<Rightarrow>
        (case sc of SystemScope \<Rightarrow> w\<lparr>system_store := (system_store w)(g := ks)\<rparr>
                  | UserScope \<Rightarrow> w\<lparr>user_store := (user_store w)(g := ks)\<rparr>
                  | IniFile \<Rightarrow> w\<lparr>directory_store := (directory_store w)(g := ks)\<rparr>))"

definition QSettings_value :: "world \<Rightarrow> qsettings \<Rightarrow> string \<Rightarrow> pyval" where
  "QSettings_value w s key =
     (case map_of (group_keys w s) key of
        Some v \<Rightarrow> v
      | None \<Rightarrow>
          if fst s = UserScope
          then (case map_of (system_store w (snd s)) key of Some v \<Rightarrow> v | None \<Rightarrow> PyNone)
          else PyNone)"

definition QSettings_setValue :: "qsettings \<Rightarrow> string \<Rightarrow> pyval \<Rightarrow> world \<Rightarrow> world" where
  "QSettings_setValue s key v w = put_group_keys s (AList.update key v (group_keys w s)) w"

definition QSettings_remove :: "qsettings \<Rightarrow> string \<Rightarrow> world \<Rightarrow> world" where
  "QSettings_remove s key w = put_group_keys s (AList.delete key (group_keys w s)) w"

definition QSettings_allKeys :: "world \<Rightarrow> qsettings \<Rightarrow> string list" where
  "QSettings_allKeys w s = map fst (group_keys w s)"

text \<open>
  \<open>idaapi.netnode(name, 0, True)\<close> opens the netnode of that name and creates it when
  there is none; the handle is the name. \<open>hashval\<close> is typed to raise because the source
  catches \<open>TypeError\<close> around it; the modelled store never does. \<open>hash1st\<close> and
  \<open>hashnxt\<close> return \<open>None\<close> for the sentinel (\<open>idaapi.BADNODE\<close> or \<open>None\<close>).
\<close>

definition idaapi_netnode :: "string \<Rightarrow> world \<Rightarrow> string \<times> world" where
  "idaapi_netnode name w =
     (case netnodes w name of
        None \<Rightarrow> (name, w\<lparr>netnodes := (netnodes w)(name \<mapsto> [])\<rparr>)
      | Some h \<Rightarrow> (name, w))"

definition node_keys :: "world \<Rightarrow> string \<Rightarrow> keys" where
  "node_keys w n = (case netnodes w n of None \<Rightarrow> [] | Some h \<Rightarrow> h)"

definition hashval :: "world \<Rightarrow> string \<Rightarrow> string \<Rightarrow> error + pyval" where
  "hashval w n key = (case map_of (node_keys w n) key of None \<Rightarrow> Inr PyNone | Some v \<Rightarrow> Inr v)"

definition hashset :: "string \<Rightarrow> string \<Rightarrow> pyval \<Rightarrow> world \<Rightarrow> world" where
  "hashset n key v w = w\<lparr>netnodes := (netnodes w)(n \<mapsto> AList.update key v (node_keys w n))\<rparr>"

definition hashdel :: "string \<Rightarrow> string \<Rightarrow> world \<Rightarrow> world" where
  "hashdel n key w = w\<lparr>netnodes := (netnodes w)(n \<mapsto> AList.delete key (node_keys w n))\<rparr>"

definition hash1st :: "world \<Rightarrow> string \<Rightarrow> string option" where
  "hash1st w n = (case node_keys w n of [] \<Rightarrow> None | kv # rest \<Rightarrow> Some (fst kv))"

definition hashnxt :: "world \<Rightarrow> string \<Rightarrow> string \<Rightarrow> string option" where
  "hashnxt w n key =
     (case dropWhile (\<lambda>kv. fst kv \<noteq> key) (node_keys w n) of
        [] \<Rightarrow> None
      | kv # rest \<Rightarrow> (case rest of [] \<Rightarrow> None | kv' # rest' \<Rightarrow> Some (fst kv')))"

section \<open>The three QSettings scopes\<close>

text \<open>
  \<open>get_qsettings(scope, group)\<close> opens the location of the organisation and application
  and enters the group. The \<open>_settings\<close> property of each class builds a fresh handle on
  every access. The three classes have the same four method bodies:
  \<open>value(key)\<close> and \<open>KeyError\<close> when it is \<open>None\<close>; \<open>setValue\<close>; \<open>remove\<close>; a generator
  over \<open>allKeys()\<close>, modelled by the list it yields.
\<close>

definition get_qsettings :: "qscope \<Rightarrow> string \<Rightarrow> qsettings" where
  "get_qsettings scope grp = (scope, grp)"

definition SystemIDASettings_settings :: "string \<Rightarrow> qsettings" where
  "SystemIDASettings_settings plugin_name = get_qsettings SystemScope plugin_name"

definition SystemIDASettings_get_value :: "string \<Rightarrow> string \<Rightarrow> world \<Rightarrow> pyval outcome" where
  "SystemIDASettings_get_value plugin_name key w =
     (let v = QSettings_value w (SystemIDASettings_settings plugin_name) key in
      if v = PyNone then (Inl KeyError, w) else (Inr v, w))"

definition SystemIDASettings_set_value :: "string \<Rightarrow> string \<Rightarrow> pyval \<Rightarrow> world \<Rightarrow> unit outcome" where
  "SystemIDASettings_set_value plugin_name key v w =
     (Inr (), QSettings_setValue (SystemIDASettings_settings plugin_name) key v w)"

definition SystemIDASettings_del_value :: "string \<Rightarrow> string \<Rightarrow> world \<Rightarrow> unit outcome" where
  "SystemIDASettings_del_value plugin_name key w =
     (Inr (), QSettings_remove (SystemIDASettings_settings plugin_name) key w)"

definition SystemIDASettings_get_keys :: "string \<Rightarrow> world \<Rightarrow> string list outcome" where
  "SystemIDASettings_get_keys plugin_name w =
     (Inr (QSettings_allKeys w (SystemIDASettings_settings plugin_name)), w)"

definition UserIDASettings_settings :: "string \<Rightarrow> qsettings" where
  "UserIDASettings_settings plugin_name = get_qsettings UserScope plugin_name"

definition UserIDASettings_get_value :: "string \<Rightarrow> string \<Rightarrow> world \<Rightarrow> pyval outcome" where
  "UserIDASettings_get_value plugin_name key w =
     (let v = QSettings_value w (UserIDASettings_settings plugin_name) key in
      if v = PyNone then (Inl KeyError, w) else (Inr v, w))"

definition UserIDASettings_set_value :: "string \<Rightarrow> string \<Rightarrow> pyval \<Rightarrow> world \<Rightarrow> unit outcome" where
  "UserIDASettings_set_value plugin_name key v w =
     (Inr (), QSettings_setValue (UserIDASettings_settings plugin_name) key v w)"

definition UserIDASettings_del_value :: "string \<Rightarrow> string \<Rightarrow> world \<Rightarrow> unit outcome" where
  "UserIDASettings_del_value plugin_name key w =
     (Inr (), QSettings_remove (UserIDASettings_settings plugin_name) key w)"

definition UserIDASettings_get_keys :: "string \<Rightarrow> world \<Rightarrow> string list outcome" where
  "UserIDASettings_get_keys plugin_name w =
     (Inr (QSettings_allKeys w (UserIDASettings_settings plugin_name)), w)"

definition DirectoryIDASettings_settings :: "string \<Rightarrow> qsettings" where
  "DirectoryIDASettings_settings plugin_name = (IniFile, plugin_name)"

definition DirectoryIDASettings_get_value :: "string \<Rightarrow> string \<Rightarrow> world \<Rightarrow> pyval outcome" where
  "DirectoryIDASettings_get_value plugin_name key w =
     (let v = QSettings_value w (DirectoryIDASettings_settings plugin_name) key in
      if v = PyNone then (Inl KeyError, w) else (Inr v, w))"

definition DirectoryIDASettings_set_value :: "string \<Rightarrow> string \<Rightarrow> pyval \<Rightarrow> world \<Rightarrow> unit outcome" where
  "DirectoryIDASettings_set_value plugin_name key v w =
     (Inr (), QSettings_setValue (DirectoryIDASettings_settings plugin_name) key v w)"

definition DirectoryIDASettings_del_value :: "string \<Rightarrow> string \<Rightarrow> world \<Rightarrow> unit outcome" where
  "DirectoryIDASettings_del_value plugin_name key w =
     (Inr (), QSettings_remove (DirectoryIDASettings_settings plugin_name) key w)"

definition DirectoryIDASettings_get_keys :: "string \<Rightarrow> world \<Rightarrow> string list outcome" where
  "DirectoryIDASettings_get_keys plugin_name w =
     (Inr (QSettings_allKeys w (DirectoryIDASettings_settings plugin_name)), w)"

section \<open>The IDB scope\<close>

definition IDA_SETTINGS_ORGANIZATION :: string where
  "IDA_SETTINGS_ORGANIZATION = ''IDAPython''"

definition IDA_SETTINGS_APPLICATION :: string where
  "IDA_SETTINGS_APPLICATION = ''IDA-Settings''"

definition PLUGIN_NAMES_KEY :: string where
  "PLUGIN_NAMES_KEY = ''plugin_names''"

definition get_meta_netnode :: "world \<Rightarrow> string \<times> world" where
  "get_meta_netnode w =
     idaapi_netnode (''$ '' @ IDA_SETTINGS_ORGANIZATION @ ''.'' @ IDA_SETTINGS_APPLICATION) w"

text \<open>
  \<open>get_netnode_plugin_names\<close> reads the registry key of the meta netnode: \<open>[]\<close> when
  \<open>hashval\<close> raises \<open>TypeError\<close> or returns \<open>None\<close>, and otherwise
  \<open>return json.loads(v)\<close>. The module never imports \<open>json\<close> (see \<open>module_globals\<close>), so
  evaluating that name raises \<open>NameError\<close>.
\<close>

definition get_netnode_plugin_names :: "world \<Rightarrow> string list outcome" where
  "get_netnode_plugin_names w =
     (case get_meta_netnode w of (n, w1) \<Rightarrow>
        (case hashval w1 n PLUGIN_NAMES_KEY of
           Inl e \<Rightarrow> if e = TypeError then (Inr [], w1) else (Inl e, w1)
         | Inr v \<Rightarrow> if v = PyNone then (Inr [], w1) else (Inl NameError, w1)))"

text \<open>
  \<open>add_netnode_plugin_name\<close> starts with
  \<open>current_names = set(get_current_plugin_names())\<close>. No definition, import or
  assignment of the module binds \<open>get_current_plugin_names\<close> (the reader of the registry
  is called \<open>get_netnode_plugin_names\<close>), and it is no builtin: the first statement
  raises \<open>NameError\<close>, and the membership test, the union and the \<open>hashset\<close> of the
  registry after it are never reached.
\<close>

definition add_netnode_plugin_name :: "string \<Rightarrow> world \<Rightarrow> unit outcome" where
  "add_netnode_plugin_name plugin_name w = (Inl NameError, w)"

text \<open>
  The \<open>_netnode\<close> property opens (and creates) the plugin's netnode, then registers the
  plugin name, then returns the handle. It runs again on every access.
\<close>

definition IDBIDASettings_netnode :: "string \<Rightarrow> world \<Rightarrow> string outcome" where
  "IDBIDASettings_netnode plugin_name w =
     (case idaapi_netnode
             (''$ '' @ IDA_SETTINGS_ORGANIZATION @ ''.'' @ IDA_SETTINGS_APPLICATION @ ''.'' @
              plugin_name) w of
        (n, w1) \<Rightarrow>
          (case add_netnode_plugin_name plugin_name w1 of
             (Inl e, w2) \<Rightarrow> (Inl e, w2)
           | (Inr u, w2) \<Rightarrow> (Inr n, w2)))"

text \<open>
  \<open>get_value\<close>: the \<open>try\<close> covers \<open>self._netnode.hashval(key)\<close>, so a \<open>TypeError\<close> of
  either part becomes \<open>KeyError\<close> and any other exception passes through. The
  \<open>isinstance(key, basestring)\<close> tests hold for every key of the model.
\<close>

definition IDBIDASettings_get_value :: "string \<Rightarrow> string \<Rightarrow> world \<Rightarrow> pyval outcome" where
  "IDBIDASettings_get_value plugin_name key w =
     (case IDBIDASettings_netnode plugin_name w of
        (Inl e, w1) \<Rightarrow> if e = TypeError then (Inl KeyError, w1) else (Inl e, w1)
      | (Inr n, w1) \<Rightarrow>
          (case hashval w1 n key of
             Inl e \<Rightarrow> if e = TypeError then (Inl KeyError, w1) else (Inl e, w1)
           | Inr v \<Rightarrow> if v = PyNone then (Inl KeyError, w1) else (Inr v, w1)))"

definition IDBIDASettings_set_value :: "string \<Rightarrow> string \<Rightarrow> pyval \<Rightarrow> world \<Rightarrow> unit outcome" where
  "IDBIDASettings_set_value plugin_name key v w =
     (case v of
        PyNone \<Rightarrow> (Inl TypeError, w)
      | PyBytes b \<Rightarrow>
          (case IDBIDASettings_netnode plugin_name w of
             (Inl e, w1) \<Rightarrow> (Inl e, w1)
           | (Inr n, w1) \<Rightarrow> (Inr (), hashset n key v w1)))"

definition IDBIDASettings_del_value :: "string \<Rightarrow> string \<Rightarrow> world \<Rightarrow> unit outcome" where
  "IDBIDASettings_del_value plugin_name key w =
     (case IDBIDASettings_netnode plugin_name w of
        (Inl e, w1) \<Rightarrow> (Inl e, w1)
      | (Inr n, w1) \<Rightarrow>
          (case IDBIDASettings_netnode plugin_name (hashdel n key w1) of
             (Inl e, w2) \<Rightarrow> (Inl e, w2)
           | (Inr n', w2) \<Rightarrow> (Inr (), hashset n' key PyNone w2)))"

text \<open>
  \<open>get_keys\<close> is a generator: \<open>k = self._netnode.hash1st()\<close>, then while \<open>k\<close> is not
  the sentinel, \<open>yield k\<close> and \<open>k = self._netnode.hashnxt(k)\<close>. The model is the list a
  caller collects from it (\<open>list(get_keys())\<close>); an exception inside the generator
  reaches that caller. Nothing in the loop says that it ends, so the result is an
  option: \<open>None\<close> stands for a loop that runs for ever.
\<close>

partial_function (option) get_keys_loop ::
  "string \<Rightarrow> string option \<Rightarrow> world \<Rightarrow> string list outcome option" where
  "get_keys_loop plugin_name k w =
     (case k of
        None \<Rightarrow> Some (Inr [], w)
      | Some key \<Rightarrow>
          (case IDBIDASettings_netnode plugin_name w of
             (Inl e, w1) \<Rightarrow> Some (Inl e, w1)
           | (Inr n, w1) \<Rightarrow>
               Option.bind (get_keys_loop plugin_name (hashnxt w1 n key) w1)
                 (\<lambda>r. case r of
                         (Inl e, w2) \<Rightarrow> Some (Inl e, w2)
                       | (Inr ks, w2) \<Rightarrow> Some (Inr (key # ks), w2))))"

definition IDBIDASettings_get_keys :: "string \<Rightarrow> world \<Rightarrow> string list outcome option" where
  "IDBIDASettings_get_keys plugin_name w =
     (case IDBIDASettings_netnode plugin_name w of
        (Inl e, w1) \<Rightarrow> Some (Inl e, w1)
      | (Inr n, w1) \<Rightarrow> get_keys_loop plugin_name (hash1st w1 n) w1)"

section \<open>The dictionary mixin\<close>

text \<open>
  \<open>DictMixin\<close> is written over \<open>self.get_value\<close>, \<open>self.set_value\<close> and
  \<open>self.del_value\<close>; the model takes the method of the class it is mixed into as an
  argument. \<open>__setitem__\<close> refuses a value that is not \<open>bytes\<close>.

  \<open>get(key, default=None)\<close> returns \<open>self[key]\<close> and, on \<open>KeyError\<close>, executes
  \<open>return Default\<close>: the parameter is spelt \<open>default\<close>, and \<open>Default\<close> is bound
  nowhere, so the handler raises \<open>NameError\<close>. \<open>__contains__\<close> is
  \<open>self[key] is not None\<close>, and \<open>False\<close> on \<open>KeyError\<close>.
\<close>

definition DictMixin_getitem ::
  "(string \<Rightarrow> world \<Rightarrow> pyval outcome) \<Rightarrow> string \<Rightarrow> world \<Rightarrow> pyval outcome" where
  "DictMixin_getitem get_value key w = get_value key w"

definition DictMixin_setitem ::
  "(string \<Rightarrow> pyval \<Rightarrow> world \<Rightarrow> unit outcome) \<Rightarrow> string \<Rightarrow> pyval \<Rightarrow> world \<Rightarrow> unit outcome" where
  "DictMixin_setitem set_value key v w =
     (case v of PyNone \<Rightarrow> (Inl TypeError, w) | PyBytes b \<Rightarrow> set_value key v w)"

definition DictMixin_delitem ::
  "(string \<Rightarrow> world \<Rightarrow> unit outcome) \<Rightarrow> string \<Rightarrow> world \<Rightarrow> unit outcome" where
  "DictMixin_delitem del_value key w = del_value key w"

definition DictMixin_get ::
  "(string \<Rightarrow> world \<Rightarrow> pyval outcome) \<Rightarrow> string \<Rightarrow> pyval \<Rightarrow> world \<Rightarrow> pyval outcome" where
  "DictMixin_get get_value key dflt w =
     (case DictMixin_getitem get_value key w of
        (Inr v, w1) \<Rightarrow> (Inr v, w1)
      | (Inl e, w1) \<Rightarrow> if e = KeyError then (Inl NameError, w1) else (Inl e, w1))"

definition DictMixin_contains ::
  "(string \<Rightarrow> world \<Rightarrow> pyval outcome) \<Rightarrow> string \<Rightarrow> world \<Rightarrow> bool outcome" where
  "DictMixin_contains get_value key w =
     (case DictMixin_getitem get_value key w of
        (Inr v, w1) \<Rightarrow> (Inr (v \<noteq> PyNone), w1)
      | (Inl e, w1) \<Rightarrow> if e = KeyError then (Inr False, w1) else (Inl e, w1))"

section \<open>The facade\<close>

text \<open>
  The properties \<open>idb\<close>, \<open>directory\<close>, \<open>user\<close> and \<open>system\<close> build a store of the
  facade's plugin name on every access, which runs \<open>IDASettingsBase.__init__\<close> again.
  \<open>get_value\<close> is four \<open>try\<close> blocks in a row, each returning the scope's value and
  passing on \<open>KeyError\<close> only, and a final \<open>raise KeyError\<close>.
\<close>

definition IDASettings_idb :: "string \<Rightarrow> error + string" where
  "IDASettings_idb plugin_name = IDASettingsBase_init plugin_name"

definition IDASettings_directory :: "string \<Rightarrow> error + string" where
  "IDASettings_directory plugin_name = IDASettingsBase_init plugin_name"

definition IDASettings_user :: "string \<Rightarrow> error + string" where
  "IDASettings_user plugin_name = IDASettingsBase_init plugin_name"

definition IDASettings_system :: "string \<Rightarrow> error + string" where
  "IDASettings_system plugin_name = IDASettingsBase_init plugin_name"

definition on_store ::
  "error + string \<Rightarrow> (string \<Rightarrow> world \<Rightarrow> 'a outcome) \<Rightarrow> world \<Rightarrow> 'a outcome" where
  "on_store store method w = (case store of Inl e \<Rightarrow> (Inl e, w) | Inr name \<Rightarrow> method name w)"

definition except_KeyError_pass ::
  "pyval outcome \<Rightarrow> (world \<Rightarrow> pyval outcome) \<Rightarrow> pyval outcome" where
  "except_KeyError_pass attempt rest =
     (case attempt of
        (Inr v, w1) \<Rightarrow> (Inr v, w1)
      | (Inl e, w1) \<Rightarrow> if e = KeyError then rest w1 else (Inl e, w1))"

definition IDASettings_get_value :: "string \<Rightarrow> string \<Rightarrow> world \<Rightarrow> pyval outcome" where
  "IDASettings_get_value plugin_name key w =
     except_KeyError_pass
       (on_store (IDASettings_idb plugin_name) (\<lambda>s. IDBIDASettings_get_value s key) w)
     (\<lambda>w1. except_KeyError_pass
       (on_store (IDASettings_directory plugin_name) (\<lambda>s. DirectoryIDASettings_get_value s key) w1)
     (\<lambda>w2. except_KeyError_pass
       (on_store (IDASettings_user plugin_name) (\<lambda>s. UserIDASettings_get_value s key) w2)
     (\<lambda>w3. except_KeyError_pass
       (on_store (IDASettings_system plugin_name) (\<lambda>s. SystemIDASettings_get_value s key) w3)
     (\<lambda>w4. (Inl KeyError, w4)))))"

definition IDASettings_idb_plugin_names :: "world \<Rightarrow> string list outcome" where
  "IDASettings_idb_plugin_names w = get_netnode_plugin_names w"

section \<open>The constants of the module's tests\<close>

text \<open>
  \<open>PLUGIN_1\<close>, \<open>KEY_1\<close>, \<open>KEY_2\<close>, \<open>VALUE_1\<close> and \<open>VALUE_2\<close> are the module's own test
  constants. \<open>cleared_world\<close> is a world in which nothing is stored, as the tests make
  it with \<open>clear()\<close> on an IDB that has no settings netnode.
\<close>

definition PLUGIN_1 :: string where
  "PLUGIN_1 = ''plugin1''"

definition KEY_1 :: string where
  "KEY_1 = ''key_1''"

definition KEY_2 :: string where
  "KEY_2 = ''key_2''"

definition VALUE_1 :: pyval where
  "VALUE_1 = PyBytes ''hello''"

definition VALUE_2 :: pyval where
  "VALUE_2 = PyBytes ''goodbye''"

definition cleared_world :: world where
  "cleared_world =
     \<lparr>system_store = (\<lambda>g. []), user_store = (\<lambda>g. []), directory_store = (\<lambda>g. []),
      netnodes = (\<lambda>n. None)\<rparr>"

section \<open>Name resolution\<close>

lemma unbound_names:
  "\<not> name_bound ''get_current_plugin_names''" "\<not> name_bound ''json''"
  "\<not> name_bound ''Default''"
  by (simp_all add: name_bound_def module_globals_def builtins_used_def)

section \<open>The validator\<close>

lemma newline_not_filename_char: "\<not> filename_char (CHR 0x0A)"
  by (simp add: filename_char_def)

lemma match_iff_ex:
  "FILENAME_RE_match s \<noteq> None \<longleftrightarrow>
     (\<exists>i. 1 \<le> i \<and> i \<le> length (takeWhile filename_char s) \<and> at_dollar s i)"
  unfolding FILENAME_RE_match_def find_None_iff by auto

lemma takeWhile_nth_class:
  assumes "i < length (takeWhile filename_char s)"
  shows "filename_char (s ! i)"
proof -
  have "takeWhile filename_char s ! i \<in> set (takeWhile filename_char s)"
    using assms by simp
  then have "filename_char (takeWhile filename_char s ! i)"
    by (rule set_takeWhileD [THEN conjunct2])
  then show ?thesis using assms by (simp add: takeWhile_nth)
qed

text \<open>
  What \<open>validate\<close> accepts, exactly: the non-empty strings of class characters, and
  those followed by one newline.
\<close>

lemma validate_characterisation:
  "validate s \<longleftrightarrow>
     s \<noteq> [] \<and> (list_all filename_char s \<or>
       (\<exists>p. p \<noteq> [] \<and> list_all filename_char p \<and> s = p @ [CHR 0x0A]))"
  (is "?L \<longleftrightarrow> ?R")
proof
  assume ?L
  then obtain i where i: "1 \<le> i" "i \<le> length (takeWhile filename_char s)" "at_dollar s i"
    unfolding validate_def match_iff_ex by blast
  let ?p = "takeWhile filename_char s"
  from i(3) consider (full) "i = length s" | (nl) "Suc i = length s" "s ! i = CHR 0x0A"
    unfolding at_dollar_def by blast
  then show ?R
  proof cases
    case full
    with i have "length ?p = length s"
      using length_takeWhile_le [of filename_char s] by simp
    then have "?p = s" by (metis takeWhile_eq_take take_all order_refl)
    then have "list_all filename_char s"
      by (metis list_all_iff set_takeWhileD)
    moreover have "s \<noteq> []" using full i(1) by auto
    ultimately show ?thesis by blast
  next
    case nl
    have "\<not> i < length ?p"
      using takeWhile_nth_class [of i s] nl(2) newline_not_filename_char by auto
    with i(2) have len: "length ?p = i" by simp
    have "s = take i s @ [s ! i]"
      using nl(1) by (metis lessI take_Suc_conv_app_nth take_all order_refl)
    moreover have "take i s = ?p" using len by (metis takeWhile_eq_take)
    ultimately have "s = ?p @ [CHR 0x0A]" using nl(2) by simp
    moreover have "list_all filename_char ?p"
      by (metis list_all_iff set_takeWhileD)
    moreover have "?p \<noteq> []" using len i(1) by auto
    moreover have "s \<noteq> []" using nl(1) by auto
    ultimately show ?thesis by blast
  qed
next
  assume R: ?R
  then have ne: "s \<noteq> []" by simp
  from R consider (all) "list_all filename_char s"
    | (nl) p where "p \<noteq> []" "list_all filename_char p" "s = p @ [CHR 0x0A]"
    by blast
  then show ?L
  proof cases
    case all
    then have tw: "takeWhile filename_char s = s" by (simp add: list_all_iff)
    have "1 \<le> length s \<and> length s \<le> length (takeWhile filename_char s) \<and>
        at_dollar s (length s)"
      using ne by (simp add: tw at_dollar_def Suc_leI)
    then show ?thesis
      unfolding validate_def match_iff_ex by blast
  next
    case nl
    then have tw: "takeWhile filename_char s = p"
      by (simp add: list_all_iff takeWhile_append2 newline_not_filename_char)
    have "length p \<le> length (takeWhile filename_char s)" by (simp add: tw)
    moreover have "at_dollar s (length p)" using nl by (simp add: at_dollar_def)
    moreover have "1 \<le> length p" using nl(1) by (simp add: Suc_leI)
    ultimately show ?thesis
      unfolding validate_def match_iff_ex by blast
  qed
qed

lemma validate_examples:
  "validate ''My-Plugin 1.0''" "\<not> validate ''''" "\<not> validate ''my/plugin''"
  by (simp_all add: validate_def FILENAME_RE_match_def at_dollar_def filename_char_def)

lemma validate_PLUGIN_1: "validate PLUGIN_1"
  by (simp add: PLUGIN_1_def validate_def FILENAME_RE_match_def at_dollar_def filename_char_def)

lemma init_rejects:
  "\<not> validate p \<Longrightarrow> IDASettings_init p = Inl RuntimeError"
  "\<not> validate p \<Longrightarrow> IDASettingsBase_init p = Inl RuntimeError"
  by (simp_all add: IDASettings_init_def IDASettingsBase_init_def)

text \<open>
  C4. The claim: the validator accepts exactly the strings made of the allowed characters
  over their whole length, so that a string with a control character is rejected, and the
  facade cannot be built on a rejected name. The code accepts \<open>"plugin1\n"\<close>, since \<open>$\<close>
  also holds before a final newline, and builds the facade on it.
\<close>

theorem validate_accepts_trailing_newline:
  "validate (''plugin1'' @ [CHR 0x0A]) \<and>
   IDASettings_init (''plugin1'' @ [CHR 0x0A]) = Inr (''plugin1'' @ [CHR 0x0A])"
  by (simp add: IDASettings_init_def validate_def FILENAME_RE_match_def at_dollar_def
      filename_char_def)

section \<open>The QSettings scopes\<close>

lemma group_keys_put [simp]: "group_keys (put_group_keys s ks w) s = ks"
  by (cases s; cases "fst s") (auto simp: group_keys_def put_group_keys_def)

lemma system_store_put:
  "system_store (put_group_keys (sc, g) ks w) =
     (if sc = SystemScope then (system_store w)(g := ks) else system_store w)"
  by (cases sc) (simp_all add: put_group_keys_def)

lemma user_store_put:
  "user_store (put_group_keys (sc, g) ks w) =
     (if sc = UserScope then (user_store w)(g := ks) else user_store w)"
  by (cases sc) (simp_all add: put_group_keys_def)

lemma directory_store_put:
  "directory_store (put_group_keys (sc, g) ks w) =
     (if sc = IniFile then (directory_store w)(g := ks) else directory_store w)"
  by (cases sc) (simp_all add: put_group_keys_def)

lemma netnodes_put: "netnodes (put_group_keys s ks w) = netnodes w"
  by (cases s; cases "fst s") (auto simp: put_group_keys_def)

lemma QSettings_value_system:
  "QSettings_value w (SystemScope, p) k =
     (case map_of (system_store w p) k of Some v \<Rightarrow> v | None \<Rightarrow> PyNone)"
  by (simp add: QSettings_value_def group_keys_def split: option.splits)

lemma QSettings_value_setValue: "QSettings_value (QSettings_setValue s k v w) s k = v"
  by (simp add: QSettings_value_def QSettings_setValue_def update_conv')

lemma QSettings_value_remove:
  "QSettings_value (QSettings_remove s k w) s k =
     (if fst s = UserScope
      then (case map_of (system_store w (snd s)) k of Some v \<Rightarrow> v | None \<Rightarrow> PyNone)
      else PyNone)"
  by (cases s) (simp add: QSettings_value_def QSettings_remove_def delete_conv' system_store_put)

text \<open>
  On each of the three \<open>QSettings\<close> scopes, \<open>get_value\<close> after \<open>set_value\<close> of the same
  key returns the value that was set, whatever was stored before (so a second
  \<open>set_value\<close> overwrites); a stored \<open>None\<close> reads as \<open>KeyError\<close>.
\<close>

lemma system_get_after_set:
  "SystemIDASettings_get_value p k (snd (SystemIDASettings_set_value p k v w)) =
     (if v = PyNone then Inl KeyError else Inr v, snd (SystemIDASettings_set_value p k v w))"
  by (simp add: SystemIDASettings_get_value_def SystemIDASettings_set_value_def
      QSettings_value_setValue)

lemma user_get_after_set:
  "UserIDASettings_get_value p k (snd (UserIDASettings_set_value p k v w)) =
     (if v = PyNone then Inl KeyError else Inr v, snd (UserIDASettings_set_value p k v w))"
  by (simp add: UserIDASettings_get_value_def UserIDASettings_set_value_def
      QSettings_value_setValue)

lemma directory_get_after_set:
  "DirectoryIDASettings_get_value p k (snd (DirectoryIDASettings_set_value p k v w)) =
     (if v = PyNone then Inl KeyError else Inr v, snd (DirectoryIDASettings_set_value p k v w))"
  by (simp add: DirectoryIDASettings_get_value_def DirectoryIDASettings_set_value_def
      QSettings_value_setValue)

lemma system_del_then_get:
  "fst (SystemIDASettings_get_value p k (snd (SystemIDASettings_del_value p k w))) = Inl KeyError"
  by (simp add: SystemIDASettings_get_value_def SystemIDASettings_del_value_def
      QSettings_value_remove SystemIDASettings_settings_def get_qsettings_def)

lemma directory_del_then_get:
  "fst (DirectoryIDASettings_get_value p k (snd (DirectoryIDASettings_del_value p k w))) =
     Inl KeyError"
  by (simp add: DirectoryIDASettings_get_value_def DirectoryIDASettings_del_value_def
      QSettings_value_remove DirectoryIDASettings_settings_def)

lemma user_del_then_get:
  "fst (UserIDASettings_get_value p k (snd (UserIDASettings_del_value p k w))) =
     fst (SystemIDASettings_get_value p k w)"
  by (simp add: UserIDASettings_get_value_def UserIDASettings_del_value_def
      SystemIDASettings_get_value_def QSettings_value_remove QSettings_value_system
      UserIDASettings_settings_def SystemIDASettings_settings_def get_qsettings_def Let_def)

text \<open>
  Keys: a run of \<open>set_value\<close> calls with distinct keys on an empty group leaves exactly
  those keys. (The order of the list is the model's; the spec leaves the order of these
  three scopes to the backend.)
\<close>

lemma update_new_key: "k \<notin> fst ` set al \<Longrightarrow> AList.update k v al = al @ [(k, v)]"
  by (induction al) auto

lemma fold_update_new_keys:
  "distinct (map fst (al @ kvs)) \<Longrightarrow>
     fold (\<lambda>kv. AList.update (fst kv) (snd kv)) kvs al = al @ kvs"
proof (induction kvs arbitrary: al)
  case Nil
  then show ?case by simp
next
  case (Cons kv kvs)
  have new: "fst kv \<notin> fst ` set al" using Cons.prems by auto
  have "distinct (map fst ((al @ [kv]) @ kvs))" using Cons.prems by simp
  from Cons.IH [OF this] show ?case
    by (simp add: update_new_key [OF new])
qed

lemma group_keys_setValue:
  "group_keys (QSettings_setValue s k v w) s = AList.update k v (group_keys w s)"
  by (simp add: QSettings_setValue_def)

lemma group_keys_fold_setValue:
  "group_keys (fold (\<lambda>kv. QSettings_setValue s (fst kv) (snd kv)) kvs w) s =
     fold (\<lambda>kv. AList.update (fst kv) (snd kv)) kvs (group_keys w s)"
  by (induction kvs arbitrary: w) (simp_all add: group_keys_setValue)

lemma allKeys_after_sets:
  assumes "group_keys w s = []" "distinct (map fst kvs)"
  shows "QSettings_allKeys (fold (\<lambda>kv. QSettings_setValue s (fst kv) (snd kv)) kvs w) s =
           map fst kvs"
  using assms fold_update_new_keys [of "[]" kvs]
  by (simp add: QSettings_allKeys_def group_keys_fold_setValue)

lemma system_get_keys_after_sets:
  assumes "system_store w p = []" "distinct (map fst kvs)"
  shows "fst (SystemIDASettings_get_keys p
            (fold (\<lambda>kv w. snd (SystemIDASettings_set_value p (fst kv) (snd kv) w)) kvs w)) =
         Inr (map fst kvs)"
proof -
  have "(\<lambda>kv w. snd (SystemIDASettings_set_value p (fst kv) (snd kv) w)) =
        (\<lambda>kv. QSettings_setValue (SystemScope, p) (fst kv) (snd kv))"
    by (simp add: SystemIDASettings_set_value_def SystemIDASettings_settings_def
        get_qsettings_def)
  moreover have "group_keys w (SystemScope, p) = []"
    using assms(1) by (simp add: group_keys_def)
  ultimately show ?thesis
    using allKeys_after_sets [of w "(SystemScope, p)" kvs] assms(2)
    by (simp add: SystemIDASettings_get_keys_def SystemIDASettings_settings_def
        get_qsettings_def)
qed

lemma user_get_keys_after_sets:
  assumes "user_store w p = []" "distinct (map fst kvs)"
  shows "fst (UserIDASettings_get_keys p
            (fold (\<lambda>kv w. snd (UserIDASettings_set_value p (fst kv) (snd kv) w)) kvs w)) =
         Inr (map fst kvs)"
proof -
  have "(\<lambda>kv w. snd (UserIDASettings_set_value p (fst kv) (snd kv) w)) =
        (\<lambda>kv. QSettings_setValue (UserScope, p) (fst kv) (snd kv))"
    by (simp add: UserIDASettings_set_value_def UserIDASettings_settings_def get_qsettings_def)
  moreover have "group_keys w (UserScope, p) = []"
    using assms(1) by (simp add: group_keys_def)
  ultimately show ?thesis
    using allKeys_after_sets [of w "(UserScope, p)" kvs] assms(2)
    by (simp add: UserIDASettings_get_keys_def UserIDASettings_settings_def get_qsettings_def)
qed

lemma directory_get_keys_after_sets:
  assumes "directory_store w p = []" "distinct (map fst kvs)"
  shows "fst (DirectoryIDASettings_get_keys p
            (fold (\<lambda>kv w. snd (DirectoryIDASettings_set_value p (fst kv) (snd kv) w)) kvs w)) =
         Inr (map fst kvs)"
proof -
  have "(\<lambda>kv w. snd (DirectoryIDASettings_set_value p (fst kv) (snd kv) w)) =
        (\<lambda>kv. QSettings_setValue (IniFile, p) (fst kv) (snd kv))"
    by (simp add: DirectoryIDASettings_set_value_def DirectoryIDASettings_settings_def)
  moreover have "group_keys w (IniFile, p) = []"
    using assms(1) by (simp add: group_keys_def)
  ultimately show ?thesis
    using allKeys_after_sets [of w "(IniFile, p)" kvs] assms(2)
    by (simp add: DirectoryIDASettings_get_keys_def DirectoryIDASettings_settings_def)
qed

section \<open>The IDB scope\<close>

text \<open>
  Every access to \<open>_netnode\<close> raises \<open>NameError\<close>, after the plugin's netnode has been
  opened; so does every method of \<open>IDBIDASettings\<close> that reaches it, and
  \<open>IDASettings.get_value\<close>, which asks the IDB scope first and lets pass \<open>KeyError\<close>
  only.
\<close>

lemma IDBIDASettings_netnode_eq:
  "IDBIDASettings_netnode p w =
     (Inl NameError,
      snd (idaapi_netnode
             (''$ '' @ IDA_SETTINGS_ORGANIZATION @ ''.'' @ IDA_SETTINGS_APPLICATION @ ''.'' @ p)
             w))"
  by (simp add: IDBIDASettings_netnode_def add_netnode_plugin_name_def split: prod.splits)

lemma IDB_get_value_raises: "fst (IDBIDASettings_get_value p k w) = Inl NameError"
  by (simp add: IDBIDASettings_get_value_def IDBIDASettings_netnode_eq)

lemma IDB_set_value_raises:
  "fst (IDBIDASettings_set_value p k (PyBytes b) w) = Inl NameError"
  by (simp add: IDBIDASettings_set_value_def IDBIDASettings_netnode_eq)

lemma IDB_del_value_raises: "fst (IDBIDASettings_del_value p k w) = Inl NameError"
  by (simp add: IDBIDASettings_del_value_def IDBIDASettings_netnode_eq)

lemma IDB_get_keys_raises:
  "\<exists>w'. IDBIDASettings_get_keys p w = Some (Inl NameError, w')"
  by (simp add: IDBIDASettings_get_keys_def IDBIDASettings_netnode_eq)

lemma except_KeyError_pass_other:
  "fst a = Inl e \<Longrightarrow> e \<noteq> KeyError \<Longrightarrow> except_KeyError_pass a rest = a"
  by (cases a) (simp add: except_KeyError_pass_def)

lemma IDASettings_get_value_raises:
  assumes "validate p"
  shows "fst (IDASettings_get_value p k w) = Inl NameError"
proof -
  have "on_store (IDASettings_idb p) (\<lambda>s. IDBIDASettings_get_value s k) w =
          IDBIDASettings_get_value p k w"
    using assms by (simp add: on_store_def IDASettings_idb_def IDASettingsBase_init_def)
  then show ?thesis
    unfolding IDASettings_get_value_def
    using except_KeyError_pass_other [OF IDB_get_value_raises [of p k w], simplified]
    by (simp add: IDB_get_value_raises)
qed

lemma idaapi_netnode_frame:
  "system_store (snd (idaapi_netnode n w)) = system_store w"
  "user_store (snd (idaapi_netnode n w)) = user_store w"
  "directory_store (snd (idaapi_netnode n w)) = directory_store w"
  by (simp_all add: idaapi_netnode_def split: option.splits)

lemma IDBIDASettings_netnode_frame:
  "system_store (snd (IDBIDASettings_netnode p w)) = system_store w"
  "user_store (snd (IDBIDASettings_netnode p w)) = user_store w"
  "directory_store (snd (IDBIDASettings_netnode p w)) = directory_store w"
  by (simp_all only: IDBIDASettings_netnode_eq snd_conv idaapi_netnode_frame)

lemma IDB_set_value_frame:
  "system_store (snd (IDBIDASettings_set_value p k v w)) = system_store w"
  "user_store (snd (IDBIDASettings_set_value p k v w)) = user_store w"
  "directory_store (snd (IDBIDASettings_set_value p k v w)) = directory_store w"
  using IDBIDASettings_netnode_frame [of p w]
  by (auto simp: IDBIDASettings_set_value_def hashset_def
      split: pyval.splits prod.splits sum.splits)

lemma DictMixin_get_KeyError:
  "fst (get_value k w) = Inl KeyError \<Longrightarrow>
     fst (DictMixin_get get_value k d w) = Inl NameError"
  by (cases "get_value k w") (simp add: DictMixin_get_def DictMixin_getitem_def)

section \<open>The claims\<close>

text \<open>
  C1. The claim: \<open>IDASettings.get_value\<close> asks the IDB, the directory, the user and the
  system scope in that order and returns the value of the first scope whose \<open>get_value\<close>
  succeeds. In the code the IDB scope is asked first and raises \<open>NameError\<close>, which the
  facade does not catch: with \<open>KEY_1\<close> stored in the directory scope, the directory
  scope returns \<open>VALUE_1\<close> and the facade raises \<open>NameError\<close>.
\<close>

theorem resolve_raises_NameError:
  "fst (DirectoryIDASettings_get_value PLUGIN_1 KEY_1
          (snd (DirectoryIDASettings_set_value PLUGIN_1 KEY_1 VALUE_1 cleared_world))) =
     Inr VALUE_1 \<and>
   fst (IDASettings_get_value PLUGIN_1 KEY_1
          (snd (DirectoryIDASettings_set_value PLUGIN_1 KEY_1 VALUE_1 cleared_world))) =
     Inl NameError"
  by (simp add: directory_get_after_set IDASettings_get_value_raises validate_PLUGIN_1
      VALUE_1_def)

text \<open>
  C2. The claim: on every scope, \<open>get_value\<close> after \<open>set_value\<close> returns the value that
  was set. On the IDB scope \<open>set_value\<close> raises \<open>NameError\<close> before it stores anything,
  and so does the \<open>get_value\<close> after it. (The three \<open>QSettings\<close> scopes do as claimed:
  \<open>system_get_after_set\<close>, \<open>user_get_after_set\<close>, \<open>directory_get_after_set\<close>.)
\<close>

theorem idb_set_then_get_raises:
  "fst (IDBIDASettings_set_value PLUGIN_1 KEY_1 VALUE_1 cleared_world) = Inl NameError \<and>
   fst (IDBIDASettings_get_value PLUGIN_1 KEY_1
          (snd (IDBIDASettings_set_value PLUGIN_1 KEY_1 VALUE_1 cleared_world))) =
     Inl NameError"
  by (simp add: IDB_get_value_raises IDB_set_value_raises VALUE_1_def)

text \<open>
  C3, as amended. For a key that the system scope does not hold, \<open>get_value\<close> of the
  system scope raises \<open>KeyError\<close>, whatever the other scopes hold; the same for the
  directory scope. For a key that the user scope does not hold, \<open>get_value\<close> of the user
  scope does what \<open>get_value\<close> of the system scope does: it returns the system scope's
  value when there is one, and raises \<open>KeyError\<close> otherwise. No default is returned.
\<close>

theorem get_value_absent_key:
  "(map_of (system_store w p) k = None \<longrightarrow>
      SystemIDASettings_get_value p k w = (Inl KeyError, w)) \<and>
   (map_of (directory_store w p) k = None \<longrightarrow>
      DirectoryIDASettings_get_value p k w = (Inl KeyError, w)) \<and>
   (map_of (user_store w p) k = None \<longrightarrow>
      UserIDASettings_get_value p k w = SystemIDASettings_get_value p k w)"
  by (simp add: SystemIDASettings_get_value_def DirectoryIDASettings_get_value_def
      UserIDASettings_get_value_def QSettings_value_def group_keys_def
      SystemIDASettings_settings_def DirectoryIDASettings_settings_def
      UserIDASettings_settings_def get_qsettings_def)

text \<open>
  The witness: with \<open>KEY_1\<close> stored in the user scope only, the system and the directory
  scope raise \<open>KeyError\<close>; with \<open>KEY_1\<close> stored in the system scope only, the user scope
  answers as the system scope does.
\<close>

theorem get_value_absent_key_witness:
  "map_of (system_store (snd (UserIDASettings_set_value PLUGIN_1 KEY_1 VALUE_1 cleared_world))
      PLUGIN_1) KEY_1 = None \<and>
   fst (SystemIDASettings_get_value PLUGIN_1 KEY_1
      (snd (UserIDASettings_set_value PLUGIN_1 KEY_1 VALUE_1 cleared_world))) = Inl KeyError \<and>
   map_of (directory_store (snd (UserIDASettings_set_value PLUGIN_1 KEY_1 VALUE_1 cleared_world))
      PLUGIN_1) KEY_1 = None \<and>
   fst (DirectoryIDASettings_get_value PLUGIN_1 KEY_1
      (snd (UserIDASettings_set_value PLUGIN_1 KEY_1 VALUE_1 cleared_world))) = Inl KeyError \<and>
   map_of (user_store (snd (SystemIDASettings_set_value PLUGIN_1 KEY_1 VALUE_1 cleared_world))
      PLUGIN_1) KEY_1 = None \<and>
   UserIDASettings_get_value PLUGIN_1 KEY_1
      (snd (SystemIDASettings_set_value PLUGIN_1 KEY_1 VALUE_1 cleared_world)) =
   SystemIDASettings_get_value PLUGIN_1 KEY_1
      (snd (SystemIDASettings_set_value PLUGIN_1 KEY_1 VALUE_1 cleared_world))"
proof -
  let ?wu = "snd (UserIDASettings_set_value PLUGIN_1 KEY_1 VALUE_1 cleared_world)"
  let ?ws = "snd (SystemIDASettings_set_value PLUGIN_1 KEY_1 VALUE_1 cleared_world)"
  have a: "map_of (system_store ?wu PLUGIN_1) KEY_1 = None"
    and b: "map_of (directory_store ?wu PLUGIN_1) KEY_1 = None"
    by (simp_all add: UserIDASettings_set_value_def QSettings_setValue_def put_group_keys_def
        UserIDASettings_settings_def get_qsettings_def cleared_world_def)
  have c: "map_of (user_store ?ws PLUGIN_1) KEY_1 = None"
    by (simp add: SystemIDASettings_set_value_def QSettings_setValue_def put_group_keys_def
        SystemIDASettings_settings_def get_qsettings_def cleared_world_def)
  from a b c get_value_absent_key [of ?wu PLUGIN_1 KEY_1]
    get_value_absent_key [of ?ws PLUGIN_1 KEY_1]
  show ?thesis by simp
qed

text \<open>
  The counterexample to C3 as stated: \<open>KEY_1\<close> is stored in the system scope only; the
  user scope does not hold it, and its \<open>get_value\<close> returns the system scope's value.
\<close>

theorem user_get_value_falls_back_to_system:
  "map_of (user_store (snd (SystemIDASettings_set_value PLUGIN_1 KEY_1 VALUE_1 cleared_world))
      PLUGIN_1) KEY_1 = None \<and>
   fst (UserIDASettings_get_value PLUGIN_1 KEY_1
      (snd (SystemIDASettings_set_value PLUGIN_1 KEY_1 VALUE_1 cleared_world))) = Inr VALUE_1"
  by (simp add: SystemIDASettings_set_value_def UserIDASettings_get_value_def
      QSettings_setValue_def QSettings_value_def group_keys_def put_group_keys_def
      SystemIDASettings_settings_def UserIDASettings_settings_def get_qsettings_def
      cleared_world_def VALUE_1_def Let_def)

text \<open>
  C5, as amended. On the system, the directory and the user scope \<open>del_value\<close> never
  raises, whether the key is stored or not. After it, \<open>get_value\<close> of the system and of
  the directory scope raises \<open>KeyError\<close>; \<open>get_value\<close> of the user scope does what
  \<open>get_value\<close> of the system scope does for that key (its value, or \<open>KeyError\<close> when the
  system scope has none).
\<close>

theorem del_value_then_get_value:
  "fst (SystemIDASettings_del_value p k w) = Inr () \<and>
   fst (SystemIDASettings_get_value p k (snd (SystemIDASettings_del_value p k w))) =
     Inl KeyError \<and>
   fst (DirectoryIDASettings_del_value p k w) = Inr () \<and>
   fst (DirectoryIDASettings_get_value p k (snd (DirectoryIDASettings_del_value p k w))) =
     Inl KeyError \<and>
   fst (UserIDASettings_del_value p k w) = Inr () \<and>
   fst (UserIDASettings_get_value p k (snd (UserIDASettings_del_value p k w))) =
     fst (SystemIDASettings_get_value p k w)"
proof -
  have "fst (SystemIDASettings_del_value p k w) = Inr ()"
    "fst (DirectoryIDASettings_del_value p k w) = Inr ()"
    "fst (UserIDASettings_del_value p k w) = Inr ()"
    by (simp_all add: SystemIDASettings_del_value_def DirectoryIDASettings_del_value_def
        UserIDASettings_del_value_def)
  then show ?thesis
    using system_del_then_get [of p k w] directory_del_then_get [of p k w]
      user_del_then_get [of p k w]
    by blast
qed

text \<open>
  The witness: in a world where nothing is stored the key is absent, \<open>del_value\<close> returns,
  and \<open>get_value\<close> then raises \<open>KeyError\<close> on the system and on the user scope.
\<close>

theorem del_value_then_get_value_witness:
  "fst (SystemIDASettings_del_value PLUGIN_1 KEY_1 cleared_world) = Inr () \<and>
   fst (SystemIDASettings_get_value PLUGIN_1 KEY_1
      (snd (SystemIDASettings_del_value PLUGIN_1 KEY_1 cleared_world))) = Inl KeyError \<and>
   fst (UserIDASettings_del_value PLUGIN_1 KEY_1 cleared_world) = Inr () \<and>
   fst (UserIDASettings_get_value PLUGIN_1 KEY_1
      (snd (UserIDASettings_del_value PLUGIN_1 KEY_1 cleared_world))) = Inl KeyError"
proof -
  have "fst (SystemIDASettings_get_value PLUGIN_1 KEY_1 cleared_world) = Inl KeyError"
    by (simp add: SystemIDASettings_get_value_def QSettings_value_system
        SystemIDASettings_settings_def get_qsettings_def cleared_world_def)
  with del_value_then_get_value [of PLUGIN_1 KEY_1 cleared_world] show ?thesis by simp
qed

text \<open>
  The counterexample to C5 as stated: \<open>KEY_1\<close> is stored in the system scope; after
  \<open>del_value\<close> on the user scope, \<open>get_value\<close> on the user scope returns \<open>VALUE_1\<close>.
\<close>

theorem user_get_value_after_del_value:
  "fst (UserIDASettings_get_value PLUGIN_1 KEY_1
      (snd (UserIDASettings_del_value PLUGIN_1 KEY_1
         (snd (SystemIDASettings_set_value PLUGIN_1 KEY_1 VALUE_1 cleared_world))))) =
     Inr VALUE_1"
  by (simp add: user_del_then_get system_get_after_set VALUE_1_def)

text \<open>
  C6. The claim: every access through the IDB scope adds the plugin name to the registry
  of the meta netnode, and \<open>idb_plugin_names\<close> lists the registered names. In the code
  \<open>set_value\<close> on the IDB scope opens the plugin's netnode and raises \<open>NameError\<close>; the
  meta netnode is not even opened, and \<open>idb_plugin_names\<close> then returns the empty list.
\<close>

theorem registry_never_written:
  "fst (IDBIDASettings_set_value PLUGIN_1 KEY_1 VALUE_1 cleared_world) = Inl NameError \<and>
   netnodes (snd (IDBIDASettings_set_value PLUGIN_1 KEY_1 VALUE_1 cleared_world))
     ''$ IDAPython.IDA-Settings.plugin1'' = Some [] \<and>
   netnodes (snd (IDBIDASettings_set_value PLUGIN_1 KEY_1 VALUE_1 cleared_world))
     ''$ IDAPython.IDA-Settings'' = None \<and>
   fst (IDASettings_idb_plugin_names
     (snd (IDBIDASettings_set_value PLUGIN_1 KEY_1 VALUE_1 cleared_world))) = Inr []"
  by (simp add: IDBIDASettings_set_value_def IDBIDASettings_netnode_def
      add_netnode_plugin_name_def idaapi_netnode_def IDASettings_idb_plugin_names_def
      get_netnode_plugin_names_def get_meta_netnode_def hashval_def node_keys_def
      IDA_SETTINGS_ORGANIZATION_def IDA_SETTINGS_APPLICATION_def PLUGIN_NAMES_KEY_def
      cleared_world_def VALUE_1_def PLUGIN_1_def KEY_1_def)

text \<open>
  C7. The claim: \<open>get_keys\<close> yields no key on an empty scope and exactly the keys that
  were set otherwise, for the IDB scope in insertion order. On the IDB scope the
  generator raises \<open>NameError\<close> at its first step. (The three \<open>QSettings\<close> scopes do as
  claimed: \<open>system_get_keys_after_sets\<close>, \<open>user_get_keys_after_sets\<close>,
  \<open>directory_get_keys_after_sets\<close>.)
\<close>

theorem idb_get_keys_raises:
  "map_option fst (IDBIDASettings_get_keys PLUGIN_1 cleared_world) = Some (Inl NameError)"
  by (simp add: IDBIDASettings_get_keys_def IDBIDASettings_netnode_eq)

text \<open>
  C8, as amended. On the system, the user and the directory scope, once \<open>None\<close> has been
  stored under a key, the key is not \<open>in\<close> the store, and \<open>get_value\<close> of that key raises
  \<open>KeyError\<close>: the stored \<open>None\<close> is treated as absent by both.
\<close>

theorem stored_None_is_absent:
  "DictMixin_contains (SystemIDASettings_get_value p) k
      (snd (SystemIDASettings_set_value p k PyNone w)) =
     (Inr False, snd (SystemIDASettings_set_value p k PyNone w)) \<and>
   fst (SystemIDASettings_get_value p k (snd (SystemIDASettings_set_value p k PyNone w))) =
     Inl KeyError \<and>
   DictMixin_contains (UserIDASettings_get_value p) k
      (snd (UserIDASettings_set_value p k PyNone w)) =
     (Inr False, snd (UserIDASettings_set_value p k PyNone w)) \<and>
   fst (UserIDASettings_get_value p k (snd (UserIDASettings_set_value p k PyNone w))) =
     Inl KeyError \<and>
   DictMixin_contains (DirectoryIDASettings_get_value p) k
      (snd (DirectoryIDASettings_set_value p k PyNone w)) =
     (Inr False, snd (DirectoryIDASettings_set_value p k PyNone w)) \<and>
   fst (DirectoryIDASettings_get_value p k (snd (DirectoryIDASettings_set_value p k PyNone w))) =
     Inl KeyError"
  by (simp add: DictMixin_contains_def DictMixin_getitem_def system_get_after_set
      user_get_after_set directory_get_after_set)

theorem stored_None_is_absent_witness:
  "map_of (system_store (snd (SystemIDASettings_set_value PLUGIN_1 KEY_1 PyNone cleared_world))
      PLUGIN_1) KEY_1 = Some PyNone \<and>
   fst (DictMixin_contains (SystemIDASettings_get_value PLUGIN_1) KEY_1
      (snd (SystemIDASettings_set_value PLUGIN_1 KEY_1 PyNone cleared_world))) = Inr False"
proof -
  have "map_of (system_store
      (snd (SystemIDASettings_set_value PLUGIN_1 KEY_1 PyNone cleared_world)) PLUGIN_1) KEY_1 =
      Some PyNone"
    by (simp add: SystemIDASettings_set_value_def QSettings_setValue_def group_keys_def
        put_group_keys_def SystemIDASettings_settings_def get_qsettings_def cleared_world_def)
  with stored_None_is_absent [of PLUGIN_1 KEY_1 cleared_world] show ?thesis by simp
qed

text \<open>
  The counterexample to C8 as stated: with \<open>None\<close> stored under \<open>KEY_1\<close> in the system
  scope, \<open>get_value\<close> raises \<open>KeyError\<close>, as it does when nothing is stored.
\<close>

theorem get_value_of_stored_None_raises:
  "map_of (system_store (snd (SystemIDASettings_set_value PLUGIN_1 KEY_1 PyNone cleared_world))
      PLUGIN_1) KEY_1 = Some PyNone \<and>
   fst (SystemIDASettings_get_value PLUGIN_1 KEY_1
      (snd (SystemIDASettings_set_value PLUGIN_1 KEY_1 PyNone cleared_world))) = Inl KeyError \<and>
   fst (SystemIDASettings_get_value PLUGIN_1 KEY_1 cleared_world) = Inl KeyError"
  by (simp add: system_get_after_set SystemIDASettings_set_value_def QSettings_setValue_def
      SystemIDASettings_get_value_def QSettings_value_def
      group_keys_def put_group_keys_def SystemIDASettings_settings_def get_qsettings_def
      cleared_world_def)

text \<open>
  C9. \<open>set_value\<close> on one scope leaves what the other three scopes store unchanged, for
  every plugin name, key, value and world: the system scope's \<open>set_value\<close> changes
  neither the user store, the directory store nor the netnodes, and so on for the user,
  the directory and the IDB scope (whose \<open>set_value\<close> raises, and still leaves the three
  \<open>QSettings\<close> stores as they were).
\<close>

theorem set_value_frame:
  "user_store (snd (SystemIDASettings_set_value p k v w)) = user_store w \<and>
   directory_store (snd (SystemIDASettings_set_value p k v w)) = directory_store w \<and>
   netnodes (snd (SystemIDASettings_set_value p k v w)) = netnodes w \<and>
   system_store (snd (UserIDASettings_set_value p k v w)) = system_store w \<and>
   directory_store (snd (UserIDASettings_set_value p k v w)) = directory_store w \<and>
   netnodes (snd (UserIDASettings_set_value p k v w)) = netnodes w \<and>
   system_store (snd (DirectoryIDASettings_set_value p k v w)) = system_store w \<and>
   user_store (snd (DirectoryIDASettings_set_value p k v w)) = user_store w \<and>
   netnodes (snd (DirectoryIDASettings_set_value p k v w)) = netnodes w \<and>
   system_store (snd (IDBIDASettings_set_value p k v w)) = system_store w \<and>
   user_store (snd (IDBIDASettings_set_value p k v w)) = user_store w \<and>
   directory_store (snd (IDBIDASettings_set_value p k v w)) = directory_store w"
  by (simp add: IDB_set_value_frame SystemIDASettings_set_value_def
      UserIDASettings_set_value_def DirectoryIDASettings_set_value_def QSettings_setValue_def
      SystemIDASettings_settings_def UserIDASettings_settings_def
      DirectoryIDASettings_settings_def get_qsettings_def
      system_store_put user_store_put directory_store_put netnodes_put)

text \<open>
  The witness: \<open>KEY_1\<close> is set to \<open>VALUE_1\<close> in the system scope and then to \<open>VALUE_2\<close> in
  the user scope; the system scope still stores \<open>VALUE_1\<close>.
\<close>

theorem set_value_frame_witness:
  "system_store (snd (UserIDASettings_set_value PLUGIN_1 KEY_1 VALUE_2
      (snd (SystemIDASettings_set_value PLUGIN_1 KEY_1 VALUE_1 cleared_world)))) PLUGIN_1 =
     [(KEY_1, VALUE_1)] \<and>
   user_store (snd (UserIDASettings_set_value PLUGIN_1 KEY_1 VALUE_2
      (snd (SystemIDASettings_set_value PLUGIN_1 KEY_1 VALUE_1 cleared_world)))) PLUGIN_1 =
     [(KEY_1, VALUE_2)]"
proof -
  let ?w = "snd (SystemIDASettings_set_value PLUGIN_1 KEY_1 VALUE_1 cleared_world)"
  have "system_store ?w PLUGIN_1 = [(KEY_1, VALUE_1)]" "user_store ?w PLUGIN_1 = []"
    by (simp_all add: SystemIDASettings_set_value_def QSettings_setValue_def
        SystemIDASettings_settings_def get_qsettings_def group_keys_def put_group_keys_def
        cleared_world_def)
  moreover have
    "user_store (snd (UserIDASettings_set_value PLUGIN_1 KEY_1 VALUE_2 ?w)) PLUGIN_1 =
      AList.update KEY_1 VALUE_2 (user_store ?w PLUGIN_1)"
    by (simp add: UserIDASettings_set_value_def QSettings_setValue_def
        UserIDASettings_settings_def get_qsettings_def group_keys_def put_group_keys_def)
  ultimately show ?thesis
    using set_value_frame [of PLUGIN_1 KEY_1 VALUE_2 ?w] by simp
qed

text \<open>
  C10. The claim: \<open>get(k, default)\<close> of the dictionary mixin returns \<open>default\<close> for a key
  the store does not hold. In the code the handler returns the unbound name \<open>Default\<close>:
  on the system scope of a world where nothing is stored, \<open>get_value\<close> raises \<open>KeyError\<close>
  and \<open>get(KEY_1, VALUE_2)\<close> raises \<open>NameError\<close>.
\<close>

theorem dict_get_raises_NameError:
  "fst (SystemIDASettings_get_value PLUGIN_1 KEY_1 cleared_world) = Inl KeyError \<and>
   DictMixin_get (SystemIDASettings_get_value PLUGIN_1) KEY_1 VALUE_2 cleared_world =
     (Inl NameError, cleared_world)"
  by (simp add: DictMixin_get_def DictMixin_getitem_def SystemIDASettings_get_value_def
      QSettings_value_system SystemIDASettings_settings_def get_qsettings_def cleared_world_def)

end
